theory Spec2Isabelle
  imports Complex_Main "HOL-Library.Word"
begin

section \<open>JavaScript values and strings\<close>

text \<open>
  A JavaScript string is a sequence of UTF-16 code units. \<open>js\<close> turns an ASCII literal
  into such a string. The Numbers that the handlers compute with (counts, page numbers,
  timestamps) are integers and are modelled as \<open>int\<close>; a Number is an IEEE double, so
  an integer is a Number when it fits a significand of 53 bits, as every integer up to
  \<open>2^53\<close> in magnitude does.
\<close>

type_synonym jschar = "16 word"
type_synonym jsstring = "jschar list"

definition js :: "string \<Rightarrow> jsstring" where
  "js s = map (\<lambda>c. of_char c) s"

text \<open>
  \<open>double_round n\<close> is the Number that an arithmetic operation yields when its exact
  result is the integer \<open>n\<close>: \<open>n\<close> itself up to \<open>2^53\<close> in magnitude, and beyond that
  the nearest integer with a significand of 53 bits, a tie going to the even
  significand. (Magnitudes beyond the largest double do not arise from the operations
  modelled here.) \<open>bit_length\<close> is the number of binary digits.
\<close>

fun bit_length :: "nat \<Rightarrow> nat" where
  "bit_length n = (if n = 0 then 0 else Suc (bit_length (n div 2)))"

declare bit_length.simps [simp del]

definition double_round :: "int \<Rightarrow> int" where
  "double_round n =
     (if \<bar>n\<bar> \<le> 2 ^ 53 then n
      else let a = nat \<bar>n\<bar>;
               e = bit_length a - 53;
               q = a div 2 ^ e;
               r = a mod 2 ^ e;
               h = 2 ^ (e - 1);
               q' = (if h < r \<or> (r = h \<and> odd q) then q + 1 else q)
           in sgn n * int (q' * 2 ^ e))"

text \<open>
  \<^verbatim>\<open>x += 1\<close> on a Number: the stored value is read as a Number, and the sum is a
  Number.
\<close>

definition js_increment :: "int \<Rightarrow> int" where
  "js_increment n = double_round (double_round n + 1)"


text \<open>
  The ECMAScript WhiteSpace and LineTerminator code points: the class matched by
  \<^verbatim>\<open>\s\<close> in a regular expression and stripped by \<^verbatim>\<open>String.prototype.trim\<close>.
\<close>

definition is_ws :: "jschar \<Rightarrow> bool" where
  "is_ws c \<longleftrightarrow>
     (0x0009 \<le> c \<and> c \<le> 0x000D) \<or> c = 0x0020 \<or> c = 0x00A0 \<or> c = 0x1680 \<or>
     (0x2000 \<le> c \<and> c \<le> 0x200A) \<or> c = 0x2028 \<or> c = 0x2029 \<or> c = 0x202F \<or>
     c = 0x205F \<or> c = 0x3000 \<or> c = 0xFEFF"

text \<open>\<^verbatim>\<open>s.trim()\<close>: white space is removed from both ends.\<close>

definition js_trim :: "jsstring \<Rightarrow> jsstring" where
  "js_trim s = rev (dropWhile is_ws (rev (dropWhile is_ws s)))"

text \<open>
  \<^verbatim>\<open>s.split(/\s+/)\<close>: the pieces of \<open>s\<close> between maximal runs of white space. The
  first argument collects the piece being read. A string that starts (ends) with white
  space yields an empty first (last) piece, and the empty string yields one empty piece.
\<close>

function split_ws :: "jsstring \<Rightarrow> jsstring \<Rightarrow> jsstring list" where
  "split_ws acc [] = [acc]"
| "split_ws acc (c # cs) =
     (if is_ws c then acc # split_ws [] (dropWhile is_ws cs)
      else split_ws (acc @ [c]) cs)"
  by pat_completeness auto
termination
  by (relation "measure (\<lambda>(acc, s). length s)")
     (auto simp: less_Suc_eq_le length_dropWhile_le)

text \<open>
  The values a handler can be handed. \<open>JObject\<close> stands for any object, array or
  function: all of them are truthy and none has type \<^verbatim>\<open>"string"\<close>.
\<close>

datatype jsnumber = NaN | PosInf | NegInf | Finite real

datatype jsval = JUndefined | JNull | JBool bool | JNum jsnumber | JStr jsstring | JObject

fun js_truthy :: "jsval \<Rightarrow> bool" where
  "js_truthy JUndefined = False"
| "js_truthy JNull = False"
| "js_truthy (JBool b) = b"
| "js_truthy (JNum n) = (n \<noteq> NaN \<and> n \<noteq> Finite 0)"
| "js_truthy (JStr s) = (s \<noteq> [])"
| "js_truthy JObject = True"

fun js_typeof :: "jsval \<Rightarrow> string" where
  "js_typeof JUndefined = ''undefined''"
| "js_typeof JNull = ''object''"
| "js_typeof (JBool b) = ''boolean''"
| "js_typeof (JNum n) = ''number''"
| "js_typeof (JStr s) = ''string''"
| "js_typeof JObject = ''object''"

section \<open>Reading time (utils/calculateReadingTime.js)\<close>

text \<open>
  \<^verbatim>\<open>Math.ceil(readingTime) || 1\<close>: a ceiling of \<open>0\<close> is replaced by \<open>1\<close>. The quotient
  \<^verbatim>\<open>wordCount / 200\<close> is computed on reals; for the array lengths JavaScript allows
  (below \<open>2^32\<close>) the double quotient has the same ceiling.
\<close>

definition calculateReadingTime :: "jsval \<Rightarrow> int" where
  "calculateReadingTime text =
     (if \<not> js_truthy text \<or> js_typeof text \<noteq> ''string'' then 0
      else case text of
        JStr s \<Rightarrow>
          (let words = split_ws [] (js_trim s);
               wordCount = length words;
               wordsPerMinute = 200;
               readingTime = real wordCount / wordsPerMinute;
               minutes = \<lceil>readingTime\<rceil>
           in if minutes = 0 then 1 else minutes)
      | _ \<Rightarrow> 0)"

subsection \<open>The specification's word count\<close>

text \<open>
  The specification counts the tokens obtained by splitting the text on runs of white
  space: the maximal runs of characters that are not white space. \<open>tokens_acc\<close> reads
  the text once, its first argument being the token under construction.
\<close>

fun tokens_acc :: "jsstring \<Rightarrow> jsstring \<Rightarrow> jsstring list" where
  "tokens_acc acc [] = (if acc = [] then [] else [acc])"
| "tokens_acc acc (c # cs) =
     (if is_ws c then (if acc = [] then tokens_acc [] cs else acc # tokens_acc [] cs)
      else tokens_acc (acc @ [c]) cs)"

definition ws_tokens :: "jsstring \<Rightarrow> jsstring list" where
  "ws_tokens s = tokens_acc [] s"

definition wordCount :: "jsstring \<Rightarrow> nat" where
  "wordCount s = length (ws_tokens s)"

text \<open>\<^verbatim>\<open>ws.join(" ")\<close>, used to build bodies with a known number of words.\<close>

fun js_join_sp :: "jsstring list \<Rightarrow> jsstring" where
  "js_join_sp [] = []"
| "js_join_sp [w] = w"
| "js_join_sp (w # v # ws) = w @ 0x20 # js_join_sp (v # ws)"

section \<open>Errors and responses\<close>

text \<open>
  What a handler sends: the HTTP status and the JSON body
  \<^verbatim>\<open>{success, message, data}\<close>. \<open>DriverMsg\<close> is the text of an error raised by the
  database driver, a library or the JavaScript runtime, which this code forwards but
  does not fix. A blog in a response
  carries its author's identifier; the \<^verbatim>\<open>populate\<close> call, which shows the author's
  names and email in its place, changes nothing that is stored and is left out, as is
  the stack trace that the error handler adds in development mode.
\<close>

datatype msg = Msg string | DriverMsg

type_synonym objectid = "96 word"

datatype blog_state = Draft | Published

text \<open>
  The Blog schema (models/Blog.js). \<open>description\<close> is optional; \<open>state\<close> is an
  enumeration of \<^verbatim>\<open>'draft'\<close> and \<^verbatim>\<open>'published'\<close>; the two dates are milliseconds.
\<close>

record blog =
  blog_id :: objectid
  title :: jsstring
  description :: "jsstring option"
  author :: objectid
  state :: blog_state
  read_count :: int
  reading_time :: int
  tags :: "jsstring list"
  body :: jsstring
  timestamp :: int
  updatedAt :: int

record pagination =
  currentPage :: int
  totalPages :: int
  totalBlogs :: int
  limit :: int

text \<open>The User schema (models/User.js); \<open>password\<close> holds the salted hash.\<close>

record user =
  user_id :: objectid
  first_name :: jsstring
  last_name :: jsstring
  email :: jsstring
  password :: jsstring
  createdAt :: int

text \<open>\<^verbatim>\<open>user.toJSON()\<close>: the user without its password.\<close>

record user_view =
  view_id :: objectid
  view_first_name :: jsstring
  view_last_name :: jsstring
  view_email :: jsstring
  view_createdAt :: int

definition toJSON :: "user \<Rightarrow> user_view" where
  "toJSON u = \<lparr>view_id = user_id u, view_first_name = first_name u,
     view_last_name = last_name u, view_email = email u, view_createdAt = createdAt u\<rparr>"

text \<open>
  Modelled from the spec: the token collaborator (the signed-token library, which is not
  part of the sources). A token carries the user's identity, its time of issue and its
  expiry (seconds), and is signed with a secret; the signature is represented by the
  secret that made it. \<open>Junk\<close> is a string that is no token at all.
\<close>

record jwt_payload =
  jwt_userId :: objectid
  jwt_iat :: int
  jwt_exp :: int

datatype token = Junk | Signed jwt_payload jsstring

datatype payload =
    NoData
  | BlogData blog
  | BlogsData "blog list" pagination
  | AuthData user_view token

record response =
  status :: nat
  success :: bool
  message :: "msg option"
  data :: payload

text \<open>
  An exception as the global error handler inspects it: \<^verbatim>\<open>err.name\<close>,
  \<^verbatim>\<open>err.message\<close>, \<^verbatim>\<open>err.statusCode\<close>, \<^verbatim>\<open>err.code\<close>, the messages of
  \<^verbatim>\<open>err.errors\<close> and the keys of \<^verbatim>\<open>err.keyPattern\<close>.
\<close>

record js_error =
  err_name :: string
  err_message :: msg
  err_statusCode :: "nat option"
  err_code :: "int option"
  err_errors :: "string list"
  err_keyPattern :: "string list"

definition castError :: js_error where
  "castError = \<lparr>err_name = ''CastError'', err_message = DriverMsg, err_statusCode = None,
     err_code = None, err_errors = [], err_keyPattern = []\<rparr>"

definition validationError :: "string list \<Rightarrow> js_error" where
  "validationError msgs = \<lparr>err_name = ''ValidationError'', err_message = DriverMsg,
     err_statusCode = None, err_code = None, err_errors = msgs, err_keyPattern = []\<rparr>"

definition duplicateKey :: "string \<Rightarrow> js_error" where
  "duplicateKey field = \<lparr>err_name = ''MongoServerError'', err_message = DriverMsg,
     err_statusCode = None, err_code = Some 11000, err_errors = [], err_keyPattern = [field]\<rparr>"


text \<open>
  \<open>typeError\<close> is the runtime's error for calling a method that a value does not
  have; \<open>illegalArguments\<close> is the error with which the password-hashing library
  rejects an argument that is not a string.
\<close>

definition typeError :: js_error where
  "typeError = \<lparr>err_name = ''TypeError'', err_message = DriverMsg, err_statusCode = None,
     err_code = None, err_errors = [], err_keyPattern = []\<rparr>"

definition illegalArguments :: js_error where
  "illegalArguments = \<lparr>err_name = ''Error'', err_message = DriverMsg, err_statusCode = None,
     err_code = None, err_errors = [], err_keyPattern = []\<rparr>"

text \<open>\<^verbatim>\<open>msgs.join(", ")\<close>.\<close>

fun join_comma :: "string list \<Rightarrow> string" where
  "join_comma [] = []"
| "join_comma [m] = m"
| "join_comma (m # n # ms) = m @ '', '' @ join_comma (n # ms)"

text \<open>
  The global error handler (middleware/errorHandler.js). The tests run in source order,
  each overwriting the status and message chosen before it.
\<close>

definition errorHandler :: "js_error \<Rightarrow> response" where
  "errorHandler err =
     (let statusCode = (case err_statusCode err of None \<Rightarrow> 500
                        | Some c \<Rightarrow> if c = 0 then 500 else c);
          message = (if err_message err = Msg [] then Msg ''Internal Server Error''
                     else err_message err);
          (statusCode, message) =
             (if err_name err = ''ValidationError''
              then (400, Msg (join_comma (err_errors err))) else (statusCode, message));
          (statusCode, message) =
             (if err_code err = Some 11000
              then (400, Msg ((case err_keyPattern err of [] \<Rightarrow> ''undefined'' | field # _ \<Rightarrow> field)
                              @ '' already exists''))
              else (statusCode, message));
          (statusCode, message) =
             (if err_name err = ''CastError''
              then (400, Msg ''Invalid ID format'') else (statusCode, message));
          (statusCode, message) =
             (if err_name err = ''JsonWebTokenError''
              then (401, Msg ''Invalid token'') else (statusCode, message));
          (statusCode, message) =
             (if err_name err = ''TokenExpiredError''
              then (401, Msg ''Token expired'') else (statusCode, message))
      in \<lparr>status = statusCode, success = False, message = Some message, data = NoData\<rparr>)"

definition fail :: "nat \<Rightarrow> string \<Rightarrow> response" where
  "fail code text = \<lparr>status = code, success = False, message = Some (Msg text), data = NoData\<rparr>"

section \<open>The blog collection\<close>

text \<open>
  The collection is the list of its documents in insertion order. The operations below
  are the ones the controller calls on the Blog model; what the schema declares
  (\<^verbatim>\<open>required\<close>, \<^verbatim>\<open>unique\<close>, \<^verbatim>\<open>trim\<close>, the pre-save hook) is applied where Mongoose
  applies it.
\<close>

text \<open>Schema validation on save: \<^verbatim>\<open>title\<close> and \<^verbatim>\<open>body\<close> are required strings.\<close>

definition validate_blog :: "blog \<Rightarrow> string list" where
  "validate_blog b =
     (if title b = [] then [''Title is required''] else [])
     @ (if body b = [] then [''Blog body is required''] else [])"


text \<open>
  The lookups take the ODM's cast of a string to an object identifier as the parameter
  \<open>cast\<close>; \<open>None\<close> is a failed cast, on which the query raises a \<^verbatim>\<open>CastError\<close>.
  \<open>findById\<close> is \<^verbatim>\<open>Blog.findById(id)\<close> and \<open>findOnePublished\<close> is
  \<^verbatim>\<open>Blog.findOne({_id: id, state: 'published'})\<close>; each returns the first match or
  nothing.
\<close>

definition findById ::
  "(jsstring \<Rightarrow> objectid option) \<Rightarrow> blog list \<Rightarrow> jsstring \<Rightarrow> js_error + blog option" where
  "findById cast db ident =
     (case cast ident of
        None \<Rightarrow> Inl castError
      | Some oid \<Rightarrow> Inr (List.find (\<lambda>b. blog_id b = oid) db))"

definition findOnePublished ::
  "(jsstring \<Rightarrow> objectid option) \<Rightarrow> blog list \<Rightarrow> jsstring \<Rightarrow> js_error + blog option" where
  "findOnePublished cast db ident =
     (case cast ident of
        None \<Rightarrow> Inl castError
      | Some oid \<Rightarrow> Inr (List.find (\<lambda>b. blog_id b = oid \<and> state b = Published) db))"

text \<open>The update writes the first document that has the given \<^verbatim>\<open>_id\<close>.\<close>

fun blog_replace :: "blog \<Rightarrow> blog list \<Rightarrow> blog list" where
  "blog_replace b [] = []"
| "blog_replace b (d # ds) = (if blog_id d = blog_id b then b # ds else d # blog_replace b ds)"

text \<open>
  \<^verbatim>\<open>doc.save()\<close> on a document \<open>old\<close> loaded from the collection and changed to
  \<open>new\<close>: validation, the pre-save hook (\<^verbatim>\<open>updatedAt = Date.now()\<close>), then an update
  of the changed paths; the unique index on \<^verbatim>\<open>title\<close> rejects a changed title that
  another document has. The result is the collection and the document as saved.
\<close>

definition blog_save :: "int \<Rightarrow> blog list \<Rightarrow> blog \<Rightarrow> blog \<Rightarrow> js_error + (blog list \<times> blog)" where
  "blog_save now db old new =
     (if validate_blog new \<noteq> [] then Inl (validationError (validate_blog new))
      else if title new \<noteq> title old
              \<and> list_ex (\<lambda>d. blog_id d \<noteq> blog_id new \<and> title d = title new) db
      then Inl (duplicateKey ''title'')
      else let saved = new\<lparr>updatedAt := now\<rparr> in Inr (blog_replace saved db, saved))"

text \<open>\<^verbatim>\<open>Blog.findByIdAndDelete(id)\<close>: the first document with that \<^verbatim>\<open>_id\<close> is removed.\<close>

fun blog_delete :: "objectid \<Rightarrow> blog list \<Rightarrow> blog list" where
  "blog_delete i [] = []"
| "blog_delete i (d # ds) = (if blog_id d = i then ds else d # blog_delete i ds)"




text \<open>
  \<^verbatim>\<open>blog.incrementReadCount()\<close> (models/Blog.js):
  \<^verbatim>\<open>this.read_count += 1; return this.save()\<close>. The counter is a Number, so the
  addition is the one of Numbers.
\<close>

definition incrementReadCount :: "int \<Rightarrow> blog list \<Rightarrow> blog \<Rightarrow> js_error + (blog list \<times> blog)" where
  "incrementReadCount now db b =
     blog_save now db b (b\<lparr>read_count := js_increment (read_count b)\<rparr>)"

section \<open>The blog controller (controllers/blogController.js)\<close>

text \<open>
  The fields of a request body, each absent (\<open>None\<close>, \<^verbatim>\<open>undefined\<close>) or present with
  the type the schema gives it.
\<close>

record blog_fields =
  req_title :: "jsstring option"
  req_description :: "jsstring option"
  req_tags :: "jsstring list option"
  req_body :: "jsstring option"
  req_state :: "jsstring option"











text \<open>\<open>getBlogById cast now db ident\<close>: \<open>ident\<close> is \<^verbatim>\<open>req.params.id\<close>.\<close>

definition getBlogById ::
  "(jsstring \<Rightarrow> objectid option) \<Rightarrow> int \<Rightarrow> blog list \<Rightarrow> jsstring \<Rightarrow> blog list \<times> response" where
  "getBlogById cast now db ident =
     (case findOnePublished cast db ident of
        Inl err \<Rightarrow> (db, errorHandler err)
      | Inr None \<Rightarrow> (db, fail 404 ''Blog not found'')
      | Inr (Some blog) \<Rightarrow>
          (case incrementReadCount now db blog of
             Inl err \<Rightarrow> (db, errorHandler err)
           | Inr (db', blog') \<Rightarrow>
               (db', \<lparr>status = 200, success = True, message = None,
                      data = BlogData blog'\<rparr>)))"

text \<open>\<^verbatim>\<open>['draft', 'published'].includes(state)\<close>, with the state it names.\<close>

definition parse_state :: "jsstring \<Rightarrow> blog_state option" where
  "parse_state s = (if s = js ''draft'' then Some Draft
                    else if s = js ''published'' then Some Published else None)"

text \<open>The assignments of \<^verbatim>\<open>updateBlog\<close>, in source order.\<close>

definition apply_fields :: "blog_fields \<Rightarrow> blog \<Rightarrow> blog" where
  "apply_fields req blog =
     (let blog = (case req_title req of
                    Some t \<Rightarrow> if t \<noteq> [] then blog\<lparr>title := js_trim t\<rparr> else blog
                  | None \<Rightarrow> blog);
          blog = (case req_description req of
                    Some d \<Rightarrow> blog\<lparr>description := Some (js_trim d)\<rparr>
                  | None \<Rightarrow> blog);
          blog = (case req_tags req of Some ts \<Rightarrow> blog\<lparr>tags := ts\<rparr> | None \<Rightarrow> blog);
          blog = (case req_body req of
                    Some b \<Rightarrow> if b \<noteq> []
                      then blog\<lparr>body := b, reading_time := calculateReadingTime (JStr b)\<rparr>
                      else blog
                  | None \<Rightarrow> blog);
          blog = (case req_state req of
                    Some s \<Rightarrow> (if s \<noteq> [] then
                                 (case parse_state s of Some st \<Rightarrow> blog\<lparr>state := st\<rparr>
                                  | None \<Rightarrow> blog)
                               else blog)
                  | None \<Rightarrow> blog)
      in blog)"

definition updateBlog ::
  "(jsstring \<Rightarrow> objectid option) \<Rightarrow> int \<Rightarrow> objectid \<Rightarrow> blog list \<Rightarrow> jsstring \<Rightarrow> blog_fields
   \<Rightarrow> blog list \<times> response" where
  "updateBlog cast now caller db ident req =
     (case findById cast db ident of
        Inl err \<Rightarrow> (db, errorHandler err)
      | Inr None \<Rightarrow> (db, fail 404 ''Blog not found'')
      | Inr (Some blog) \<Rightarrow>
          if author blog \<noteq> caller
          then (db, fail 403 ''You are not authorized to update this blog'')
          else (case blog_save now db blog (apply_fields req blog) of
                  Inl err \<Rightarrow> (db, errorHandler err)
                | Inr (db', saved) \<Rightarrow>
                    (db', \<lparr>status = 200, success = True,
                           message = Some (Msg ''Blog updated successfully''),
                           data = BlogData saved\<rparr>)))"

definition deleteBlog ::
  "(jsstring \<Rightarrow> objectid option) \<Rightarrow> objectid \<Rightarrow> blog list \<Rightarrow> jsstring \<Rightarrow> blog list \<times> response" where
  "deleteBlog cast caller db ident =
     (case findById cast db ident of
        Inl err \<Rightarrow> (db, errorHandler err)
      | Inr None \<Rightarrow> (db, fail 404 ''Blog not found'')
      | Inr (Some blog) \<Rightarrow>
          if author blog \<noteq> caller
          then (db, fail 403 ''You are not authorized to delete this blog'')
          else (blog_delete (blog_id blog) db,
                \<lparr>status = 200, success = True,
                 message = Some (Msg ''Blog deleted successfully''), data = NoData\<rparr>))"

text \<open>
  A sequence of fetches of the same identifier, one at each of the given times, each
  on the collection the previous one left; the responses are returned in order.
\<close>

fun fetch_times ::
  "(jsstring \<Rightarrow> objectid option) \<Rightarrow> int list \<Rightarrow> blog list \<Rightarrow> jsstring
   \<Rightarrow> blog list \<times> response list" where
  "fetch_times cast [] db ident = (db, [])"
| "fetch_times cast (t # ts) db ident =
     (case getBlogById cast t db ident of
        (db1, r) \<Rightarrow> (case fetch_times cast ts db1 ident of (db2, rs) \<Rightarrow> (db2, r # rs)))"

text \<open>
  The cast of a string of 24 hexadecimal digits, the printed form of an object
  identifier. It is the instance of \<open>cast\<close> used in the examples below; it rejects
  every other string.
\<close>

definition hex_digit :: "jschar \<Rightarrow> nat option" where
  "hex_digit c =
     (if 0x30 \<le> c \<and> c \<le> 0x39 then Some (unat c - 0x30)
      else if 0x61 \<le> c \<and> c \<le> 0x66 then Some (unat c - 0x61 + 10)
      else if 0x41 \<le> c \<and> c \<le> 0x46 then Some (unat c - 0x41 + 10)
      else None)"

fun hex_value :: "nat \<Rightarrow> jsstring \<Rightarrow> nat option" where
  "hex_value acc [] = Some acc"
| "hex_value acc (c # cs) =
     (case hex_digit c of None \<Rightarrow> None | Some d \<Rightarrow> hex_value (16 * acc + d) cs)"

definition castObjectId :: "jsstring \<Rightarrow> objectid option" where
  "castObjectId s = (if length s = 24 then map_option of_nat (hex_value 0 s) else None)"

text \<open>A small collection for the examples: one published blog and one draft.\<close>

definition alice :: objectid where
  "alice = 0x01"

definition bob :: objectid where
  "bob = 0x02"

definition demo_blog :: blog where
  "demo_blog = \<lparr>blog_id = 0xa1, title = js ''Hello'', description = None, author = alice,
     state = Published, read_count = 0, reading_time = 1, tags = [js ''news''],
     body = js ''Hello world'', timestamp = 1000, updatedAt = 1000\<rparr>"

definition demo_draft :: blog where
  "demo_draft = demo_blog\<lparr>blog_id := 0xa2, title := js ''Notes'', state := Draft\<rparr>"

definition demo_db :: "blog list" where
  "demo_db = [demo_blog, demo_draft]"

definition id_a1 :: jsstring where
  "id_a1 = js ''0000000000000000000000a1''"

definition id_a2 :: jsstring where
  "id_a2 = js ''0000000000000000000000a2''"

definition id_a3 :: jsstring where
  "id_a3 = js ''0000000000000000000000a3''"

definition no_fields :: blog_fields where
  "no_fields = \<lparr>req_title = None, req_description = None, req_tags = None,
     req_body = None, req_state = None\<rparr>"




section \<open>The specification's search, and instances of the store's parameters\<close>



text \<open>Case folding of the ASCII letters.\<close>

definition ascii_fold :: "jschar \<Rightarrow> jschar" where
  "ascii_fold c = (if 0x41 \<le> c \<and> c \<le> 0x5A then c + 0x20 else c)"










section \<open>Authentication (controllers/authController.js, middleware/auth.js)\<close>

text \<open>
  Modelled from the spec: \<open>sign(claims, secret, ttl)\<close> of the token collaborator. The
  token records the time of issue and expires \<open>ttl\<close> seconds after it. Times are in
  seconds.
\<close>

definition jwt_sign :: "objectid \<Rightarrow> jsstring \<Rightarrow> int \<Rightarrow> int \<Rightarrow> token" where
  "jwt_sign userId secret ttl now =
     Signed \<lparr>jwt_userId = userId, jwt_iat = now, jwt_exp = now + ttl\<rparr> secret"

datatype jwt_error = TokenExpiredError | JsonWebTokenError

text \<open>
  Modelled from the spec: \<open>verify(token, secret)\<close> of the token collaborator, which
  yields the claims or a distinguished error: invalid for a string that is no token or
  a signature made with another secret, expired from the expiry time on.
\<close>

definition jwt_verify :: "token \<Rightarrow> jsstring \<Rightarrow> int \<Rightarrow> jwt_error + jwt_payload" where
  "jwt_verify tok secret now =
     (case tok of
        Junk \<Rightarrow> Inl JsonWebTokenError
      | Signed p key \<Rightarrow>
          if key \<noteq> secret then Inl JsonWebTokenError
          else if jwt_exp p \<le> now then Inl TokenExpiredError
          else Inr p)"

text \<open>\<open>generateToken\<close>: the payload is the user's identifier, \<^verbatim>\<open>expiresIn: "1h"\<close>.\<close>

definition generateToken :: "jsstring \<Rightarrow> int \<Rightarrow> objectid \<Rightarrow> token" where
  "generateToken secret now userId = jwt_sign userId secret 3600 now"

text \<open>
  The body of a login request: \<^verbatim>\<open>req.body.email\<close> and \<^verbatim>\<open>req.body.password\<close>, any
  JSON values, \<open>JUndefined\<close> when absent.
\<close>

record credentials =
  cred_email :: jsval
  cred_password :: jsval

text \<open>
  \<^verbatim>\<open>User.findOne({email: e})\<close>. The ODM passes the filter through the setters that
  the schema declares for \<^verbatim>\<open>email\<close> (\<^verbatim>\<open>lowercase\<close>, \<^verbatim>\<open>trim\<close>) before it
  queries. \<open>lower\<close> is \<^verbatim>\<open>String.prototype.toLowerCase\<close>.
\<close>

definition findUserByEmail :: "(jsstring \<Rightarrow> jsstring) \<Rightarrow> user list \<Rightarrow> jsstring \<Rightarrow> user option" where
  "findUserByEmail lower users e = List.find (\<lambda>u. email u = lower (js_trim e)) users"

text \<open>
  \<^verbatim>\<open>user.comparePassword(candidatePassword)\<close> (models/User.js), which is
  \<^verbatim>\<open>bcrypt.compare(candidatePassword, this.password)\<close>. \<open>bcrypt_compare\<close> is the
  library's comparison of a candidate string with a stored hash; the library rejects a
  candidate that is not a string.
\<close>

definition comparePassword ::
  "(jsstring \<Rightarrow> jsstring \<Rightarrow> bool) \<Rightarrow> user \<Rightarrow> jsval \<Rightarrow> js_error + bool" where
  "comparePassword bcrypt_compare usr candidatePassword =
     (case candidatePassword of
        JStr pw \<Rightarrow> Inr (bcrypt_compare pw (password usr))
      | _ \<Rightarrow> Inl illegalArguments)"

text \<open>
  \<open>login lower bcrypt_compare secret now users creds\<close>; \<open>secret\<close> is
  \<^verbatim>\<open>process.env.JWT_SECRET\<close>. An email that is truthy and not a string has no
  \<^verbatim>\<open>toLowerCase\<close>, so the call raises; every exception goes to the error handler.
\<close>

definition login ::
  "(jsstring \<Rightarrow> jsstring) \<Rightarrow> (jsstring \<Rightarrow> jsstring \<Rightarrow> bool) \<Rightarrow> jsstring \<Rightarrow> int \<Rightarrow> user list
   \<Rightarrow> credentials \<Rightarrow> response" where
  "login lower bcrypt_compare secret now users creds =
     (if \<not> js_truthy (cred_email creds) \<or> \<not> js_truthy (cred_password creds)
      then fail 400 ''Email and password are required''
      else case cred_email creds of
        JStr e \<Rightarrow>
          (case findUserByEmail lower users (lower e) of
             None \<Rightarrow> fail 401 ''Invalid email or password''
           | Some usr \<Rightarrow>
               (case comparePassword bcrypt_compare usr (cred_password creds) of
                  Inl err \<Rightarrow> errorHandler err
                | Inr isMatch \<Rightarrow>
                    if \<not> isMatch then fail 401 ''Invalid email or password''
                    else \<lparr>status = 200, success = True,
                          message = Some (Msg ''Login successful''),
                          data = AuthData (toJSON usr)
                                   (generateToken secret now (user_id usr))\<rparr>))
      | _ \<Rightarrow> errorHandler typeError)"

text \<open>
  The \<open>authenticate\<close> middleware. Its last argument is the \<^verbatim>\<open>Authorization\<close>
  header: \<open>None\<close> when there is none, \<open>Some None\<close> when it has no second field after a
  space, \<open>Some (Some tok)\<close> when that field is \<open>tok\<close>. The result is the response that
  ends the request, or the user attached to it (without the password). The last branch
  of the source, a 500 for any other exception, has no counterpart: verification and the
  lookup raise nothing else here.
\<close>

definition authenticate ::
  "jsstring \<Rightarrow> int \<Rightarrow> user list \<Rightarrow> token option option \<Rightarrow> response + user_view" where
  "authenticate secret now users authHeader =
     (case authHeader of
        None \<Rightarrow> Inl (fail 401 ''Access denied. No token provided.'')
      | Some None \<Rightarrow> Inl (fail 401 ''Access denied. Invalid token format.'')
      | Some (Some tok) \<Rightarrow>
          (case jwt_verify tok secret now of
             Inl TokenExpiredError \<Rightarrow> Inl (fail 401 ''Token expired. Please login again.'')
           | Inl JsonWebTokenError \<Rightarrow> Inl (fail 401 ''Invalid token.'')
           | Inr decoded \<Rightarrow>
               (case List.find (\<lambda>u. user_id u = jwt_userId decoded) users of
                  None \<Rightarrow> Inl (fail 401 ''User not found. Token invalid.'')
                | Some usr \<Rightarrow> Inr (toJSON usr))))"

text \<open>A user for the examples, with stand-ins for lower-casing and hash comparison.\<close>

definition john :: user where
  "john = \<lparr>user_id = alice, first_name = js ''John'', last_name = js ''Doe'',
     email = js ''john@test.com'', password = js ''321drowssap'', createdAt = 0\<rparr>"

definition demo_lower :: "jsstring \<Rightarrow> jsstring" where
  "demo_lower s = map ascii_fold s"

definition demo_compare :: "jsstring \<Rightarrow> jsstring \<Rightarrow> bool" where
  "demo_compare candidate hash \<longleftrightarrow> hash = rev candidate"

definition demo_secret :: jsstring where
  "demo_secret = js ''s3cret''"

section \<open>Lemmas about strings and reading time\<close>

lemma tokens_acc_ws_only:
  "\<forall>c\<in>set w. is_ws c \<Longrightarrow> tokens_acc acc w = (if acc = [] then [] else [acc])"
  by (induction w arbitrary: acc) auto

lemma tokens_acc_append_ws:
  "\<forall>c\<in>set w. is_ws c \<Longrightarrow> tokens_acc acc (t @ w) = tokens_acc acc t"
  by (induction t arbitrary: acc) (auto simp: tokens_acc_ws_only)

lemma tokens_acc_dropWhile: "tokens_acc [] (dropWhile is_ws s) = tokens_acc [] s"
  by (induction s) auto

lemma tokens_acc_nonempty: "acc \<noteq> [] \<Longrightarrow> tokens_acc acc s \<noteq> []"
  by (induction s arbitrary: acc) auto

lemma tokens_acc_word:
  "\<forall>c\<in>set w. \<not> is_ws c \<Longrightarrow> tokens_acc acc (w @ rest) = tokens_acc (acc @ w) rest"
  by (induction w arbitrary: acc) auto

lemma rev_dropWhile_rev_decomp:
  "u = rev (dropWhile P (rev u)) @ rev (takeWhile P (rev u))"
  by (metis rev_append rev_rev_ident takeWhile_dropWhile_id)

lemma ws_tokens_trim: "ws_tokens (js_trim s) = ws_tokens s"
proof -
  define u where "u = dropWhile is_ws s"
  define w where "w = rev (takeWhile is_ws (rev u))"
  have ws: "\<forall>c\<in>set w. is_ws c"
    unfolding w_def by (auto dest: set_takeWhileD)
  have "u = js_trim s @ w"
    unfolding js_trim_def w_def u_def by (rule rev_dropWhile_rev_decomp)
  then have "tokens_acc [] u = tokens_acc [] (js_trim s)"
    using tokens_acc_append_ws [OF ws] by simp
  then show ?thesis
    by (simp add: ws_tokens_def u_def tokens_acc_dropWhile)
qed

lemma js_trim_last: "js_trim s \<noteq> [] \<Longrightarrow> \<not> is_ws (last (js_trim s))"
  unfolding js_trim_def by (simp add: last_rev hd_dropWhile)

lemma js_trim_hd: "js_trim s \<noteq> [] \<Longrightarrow> \<not> is_ws (hd (js_trim s))"
proof -
  assume ne: "js_trim s \<noteq> []"
  define u where "u = dropWhile is_ws s"
  have dec: "u = js_trim s @ rev (takeWhile is_ws (rev u))"
    unfolding js_trim_def u_def by (rule rev_dropWhile_rev_decomp)
  with ne have "u \<noteq> []" by auto
  then have "\<not> is_ws (hd u)" unfolding u_def by (rule hd_dropWhile)
  moreover have "hd u = hd (js_trim s)"
    using dec ne by (metis hd_append2)
  ultimately show ?thesis by simp
qed

lemma split_ws_tokens:
  "t = [] \<or> \<not> is_ws (last t) \<Longrightarrow> acc \<noteq> [] \<or> t = [] \<or> \<not> is_ws (hd t) \<Longrightarrow>
   split_ws acc t = (if acc = [] \<and> t = [] then [[]] else tokens_acc acc t)"
proof (induction acc t rule: split_ws.induct)
  case (1 acc)
  then show ?case by simp
next
  case (2 acc c cs)
  show ?case
  proof (cases "is_ws c")
    case True
    define d where "d = dropWhile is_ws cs"
    from True "2.prems" have acc: "acc \<noteq> []" and cs: "cs \<noteq> []" and lst: "\<not> is_ws (last cs)"
      by (auto split: if_splits)
    from cs lst have dne: "d \<noteq> []"
      unfolding d_def by (metis dropWhile_eq_Nil_conv last_in_set)
    then have hd: "\<not> is_ws (hd d)" unfolding d_def by (rule hd_dropWhile)
    have "cs = takeWhile is_ws cs @ d" unfolding d_def by simp
    with dne have "last cs = last d" by (metis last_appendR)
    with lst have "\<not> is_ws (last d)" by simp
    with "2.IH"(1) [OF True, folded d_def] hd dne have "split_ws [] d = tokens_acc [] d"
      by simp
    moreover have "tokens_acc [] d = tokens_acc [] cs"
      unfolding d_def by (rule tokens_acc_dropWhile)
    moreover have "split_ws acc (c # cs) = acc # split_ws [] d"
      using True by (simp add: d_def)
    moreover have "tokens_acc acc (c # cs) = acc # tokens_acc [] cs"
      using True acc by simp
    ultimately show ?thesis by simp
  next
    case False
    from "2.prems" have "cs = [] \<or> \<not> is_ws (last cs)" by (auto split: if_splits)
    with "2.IH"(2) [OF False] show ?thesis using False by simp
  qed
qed

lemma split_ws_trim_length:
  "length (split_ws [] (js_trim s)) = max 1 (wordCount s)"
proof (cases "js_trim s = []")
  case True
  then have "ws_tokens s = []"
    using ws_tokens_trim [of s] by (simp add: ws_tokens_def)
  with True show ?thesis by (simp add: wordCount_def)
next
  case False
  then have h: "\<not> is_ws (hd (js_trim s))" and l: "\<not> is_ws (last (js_trim s))"
    by (simp_all add: js_trim_hd js_trim_last)
  then have "split_ws [] (js_trim s) = tokens_acc [] (js_trim s)"
    using False by (simp add: split_ws_tokens)
  then have eq: "split_ws [] (js_trim s) = ws_tokens s"
    using ws_tokens_trim [of s] by (simp add: ws_tokens_def)
  obtain c cs where t: "js_trim s = c # cs" using False by (cases "js_trim s") auto
  with h have "tokens_acc [] (js_trim s) \<noteq> []"
    by (simp add: tokens_acc_nonempty)
  then have "ws_tokens s \<noteq> []" using ws_tokens_trim [of s] by (simp add: ws_tokens_def)
  then have "1 \<le> length (ws_tokens s)" by (cases "ws_tokens s") auto
  with eq show ?thesis by (simp add: wordCount_def)
qed

lemma ceiling_div_200: "\<lceil>real n / 200\<rceil> = (int n + 199) div 200"
proof -
  have "\<lceil>real n / 200\<rceil> = \<lceil>of_int (int n) / (of_int 200 :: real)\<rceil>" by simp
  also have "\<dots> = - (- int n div 200)" by (rule ceiling_divide_eq_div)
  also have "\<dots> = (int n + 199) div 200" by linarith
  finally show ?thesis .
qed

lemma ceiling_max_one: "\<lceil>real (max 1 n) / 200\<rceil> = max 1 \<lceil>real n / 200\<rceil>"
proof (cases "n = 0")
  case True
  then show ?thesis unfolding ceiling_div_200 by simp
next
  case False
  then have "1 \<le> (int n + 199) div 200" by linarith
  moreover have "max 1 n = n" using False by simp
  ultimately show ?thesis unfolding ceiling_div_200 by simp
qed

lemma calculateReadingTime_string:
  "s \<noteq> [] \<Longrightarrow> calculateReadingTime (JStr s) = max 1 \<lceil>real (wordCount s) / 200\<rceil>"
proof -
  assume ne: "s \<noteq> []"
  define m where "m = \<lceil>real (length (split_ws [] (js_trim s))) / 200\<rceil>"
  have m: "m = max 1 \<lceil>real (wordCount s) / 200\<rceil>"
    unfolding m_def split_ws_trim_length by (rule ceiling_max_one)
  then have "m \<noteq> 0" by simp
  have "calculateReadingTime (JStr s) = (if m = 0 then 1 else m)"
    using ne by (simp add: calculateReadingTime_def Let_def m_def)
  with \<open>m \<noteq> 0\<close> m show ?thesis by simp
qed

lemma calculateReadingTime_not_string:
  "js_typeof v \<noteq> ''string'' \<Longrightarrow> calculateReadingTime v = 0"
  by (simp add: calculateReadingTime_def)

lemma calculateReadingTime_empty: "calculateReadingTime (JStr []) = 0"
  by (simp add: calculateReadingTime_def)

lemma ws_tokens_join:
  "\<forall>w\<in>set ws. w \<noteq> [] \<and> (\<forall>c\<in>set w. \<not> is_ws c) \<Longrightarrow> tokens_acc [] (js_join_sp ws) = ws"
proof (induction ws rule: js_join_sp.induct)
  case 1
  then show ?case by simp
next
  case (2 w)
  then have "tokens_acc [] (w @ []) = tokens_acc ([] @ w) []"
    by (intro tokens_acc_word) simp
  with 2 show ?case by simp
next
  case (3 w v ws)
  then have "tokens_acc [] (w @ (0x20 # js_join_sp (v # ws)))
              = tokens_acc ([] @ w) (0x20 # js_join_sp (v # ws))"
    by (intro tokens_acc_word) simp
  moreover have "is_ws 0x20" by (simp add: is_ws_def)
  ultimately show ?case using 3 by simp
qed

lemma word_no_ws: "js ''word'' \<noteq> [] \<and> (\<forall>c\<in>set (js ''word''). \<not> is_ws c)"
  by (simp add: js_def is_ws_def)

lemma wordCount_words: "wordCount (js_join_sp (replicate n (js ''word''))) = n"
proof -
  have "\<forall>w\<in>set (replicate n (js ''word'')). w \<noteq> [] \<and> (\<forall>c\<in>set w. \<not> is_ws c)"
    using word_no_ws by simp
  then show ?thesis
    by (simp add: wordCount_def ws_tokens_def ws_tokens_join)
qed

lemma words_nonempty: "0 < n \<Longrightarrow> js_join_sp (replicate n (js ''word'')) \<noteq> []"
proof
  assume "0 < n" and "js_join_sp (replicate n (js ''word'')) = []"
  then have "wordCount (js_join_sp (replicate n (js ''word''))) = 0"
    by (simp add: wordCount_def ws_tokens_def)
  with \<open>0 < n\<close> show False by (simp add: wordCount_words)
qed

lemma reading_time_words:
  "0 < n \<Longrightarrow> calculateReadingTime (JStr (js_join_sp (replicate n (js ''word''))))
               = max 1 ((int n + 199) div 200)"
  by (simp add: calculateReadingTime_string words_nonempty wordCount_words ceiling_div_200)

text \<open>
  Claim C1. For every non-empty string the estimator returns
  \<open>max 1 \<lceil>wordCount / 200\<rceil>\<close>, the words being the tokens between runs of white space;
  for every value that is not a string, and for the empty string, it returns \<open>0\<close>; one
  word gives 1 minute, 200 words give 1, 201 words give 2 and 400 words give 2.
\<close>

theorem calculateReadingTime_spec:
  "(s \<noteq> [] \<longrightarrow> calculateReadingTime (JStr s) = max 1 \<lceil>real (wordCount s) / 200\<rceil>)
   \<and> (js_typeof v \<noteq> ''string'' \<longrightarrow> calculateReadingTime v = 0)
   \<and> calculateReadingTime (JStr []) = 0
   \<and> calculateReadingTime (JStr (js ''word'')) = 1
   \<and> calculateReadingTime (JStr (js_join_sp (replicate 200 (js ''word'')))) = 1
   \<and> calculateReadingTime (JStr (js_join_sp (replicate 201 (js ''word'')))) = 2
   \<and> calculateReadingTime (JStr (js_join_sp (replicate 400 (js ''word'')))) = 2"
proof -
  have one: "calculateReadingTime (JStr (js ''word'')) = 1"
    using reading_time_words [of 1] by simp
  show ?thesis
    using one
    by (simp add: calculateReadingTime_string calculateReadingTime_not_string
        calculateReadingTime_empty reading_time_words)
qed

theorem calculateReadingTime_spec_witness:
  "js ''two words'' \<noteq> [] \<and> calculateReadingTime (JStr (js ''two words'')) = 1
   \<and> wordCount (js ''two words'') = 2
   \<and> js_typeof (JNum (Finite 42)) \<noteq> ''string'' \<and> calculateReadingTime (JNum (Finite 42)) = 0"
proof -
  have ne: "js ''two words'' \<noteq> []" by (simp add: js_def)
  have wc: "wordCount (js ''two words'') = 2"
    by (simp add: wordCount_def ws_tokens_def js_def is_ws_def)
  have ty: "js_typeof (JNum (Finite 42)) \<noteq> ''string''" by simp
  from calculateReadingTime_spec [of "js ''two words''" "JNum (Finite 42)"] ne ty
  have "calculateReadingTime (JStr (js ''two words'')) = max 1 \<lceil>real (wordCount (js ''two words'')) / 200\<rceil>"
    and "calculateReadingTime (JNum (Finite 42)) = 0"
    by blast+
  with ne wc ty show ?thesis by (simp add: ceiling_div_200)
qed

section \<open>Lemmas about the error handler and the collection\<close>

lemma errorHandler_castError: "errorHandler castError = fail 400 ''Invalid ID format''"
  by (simp add: errorHandler_def castError_def fail_def)

lemma errorHandler_validation: "errorHandler (validationError ms) = fail 400 (join_comma ms)"
  by (simp add: errorHandler_def validationError_def fail_def)

lemma errorHandler_duplicate:
  "errorHandler (duplicateKey f) = fail 400 (f @ '' already exists'')"
  by (simp add: errorHandler_def duplicateKey_def fail_def)


lemma fail_status: "status (fail c t) = c"
  by (simp add: fail_def)

lemma fail_success: "\<not> success (fail c t)"
  by (simp add: fail_def)

lemma blog_save_error:
  "blog_save now db old new = Inl err \<Longrightarrow>
     status (errorHandler err) = 400 \<and> \<not> success (errorHandler err)"
  by (auto simp: blog_save_def errorHandler_validation errorHandler_duplicate Let_def
      fail_status fail_success split: if_splits)



lemma blog_save_ok:
  "blog_save now db old new = Inr (db', saved) \<Longrightarrow>
     saved = new\<lparr>updatedAt := now\<rparr> \<and> db' = blog_replace saved db"
  by (auto simp: blog_save_def Let_def split: if_splits)

lemma blog_save_same_title:
  "validate_blog new = [] \<Longrightarrow> title new = title old \<Longrightarrow>
   blog_save now db old new
     = Inr (blog_replace (new\<lparr>updatedAt := now\<rparr>) db, new\<lparr>updatedAt := now\<rparr>)"
  by (simp add: blog_save_def Let_def)

lemma find_published_replace:
  "List.find (\<lambda>b. blog_id b = oid \<and> state b = Published) db = Some b \<Longrightarrow>
   blog_id saved = oid \<Longrightarrow> state saved = Published \<Longrightarrow>
   List.find (\<lambda>b. blog_id b = oid \<and> state b = Published) (blog_replace saved db) = Some saved"
  by (induction db) (auto split: if_splits)


lemma findOnePublished_Some:
  "findOnePublished cast db ident = Inr (Some b) \<Longrightarrow>
     cast ident = Some (blog_id b) \<and> b \<in> set db \<and> state b = Published"
  by (auto simp: findOnePublished_def find_Some_iff split: option.splits)

lemma findOnePublished_None:
  "cast ident = Some oid \<Longrightarrow>
   findOnePublished cast db ident = Inr None
     \<longleftrightarrow> \<not> (\<exists>b\<in>set db. blog_id b = oid \<and> state b = Published)"
  by (auto simp: findOnePublished_def find_None_iff)


lemma findById_None:
  "cast ident = Some oid \<Longrightarrow>
   findById cast db ident = Inr None \<longleftrightarrow> oid \<notin> blog_id ` set db"
  by (auto simp: findById_def find_None_iff)








section \<open>Fetching one published blog\<close>

lemma js_increment_exact:
  "- (2 ^ 53) \<le> n \<Longrightarrow> n < 2 ^ 53 \<Longrightarrow> js_increment n = n + 1"
proof -
  assume "- (2 ^ 53) \<le> n" and "n < 2 ^ 53"
  then have "\<bar>n\<bar> \<le> 2 ^ 53" and "\<bar>n + 1\<bar> \<le> 2 ^ 53" by linarith+
  then show ?thesis by (simp add: js_increment_def double_round_def)
qed

lemma js_increment_stops: "js_increment (2 ^ 53) = 2 ^ 53"
proof -
  have bl: "bit_length 9007199254740993 = 54" by (simp add: bit_length.simps)
  show ?thesis by (simp add: js_increment_def double_round_def Let_def bl)
qed

lemma getBlogById_found:
  assumes "findOnePublished cast db ident = Inr (Some b)"
      and "getBlogById cast now db ident = (db', r)" and "status r = 200"
  shows "db' = blog_replace (b\<lparr>read_count := js_increment (read_count b), updatedAt := now\<rparr>) db
         \<and> r = \<lparr>status = 200, success = True, message = None,
                 data = BlogData (b\<lparr>read_count := js_increment (read_count b),
                                    updatedAt := now\<rparr>)\<rparr>
         \<and> findOnePublished cast db' ident
             = Inr (Some (b\<lparr>read_count := js_increment (read_count b), updatedAt := now\<rparr>))"
proof (cases "incrementReadCount now db b")
  case (Inl err)
  with assms(1,2) have "r = errorHandler err" by (simp add: getBlogById_def)
  moreover from Inl have "status (errorHandler err) = 400"
    unfolding incrementReadCount_def by (simp add: blog_save_error)
  ultimately show ?thesis using assms(3) by simp
next
  case (Inr p)
  obtain d s where p: "p = (d, s)" by (cases p)
  with Inr have sv: "s = b\<lparr>read_count := js_increment (read_count b), updatedAt := now\<rparr>"
    and d: "d = blog_replace s db"
    unfolding incrementReadCount_def by (auto dest: blog_save_ok)
  from assms(1) have c: "cast ident = Some (blog_id b)" and st: "state b = Published"
    by (auto dest: findOnePublished_Some)
  from assms(1) c have "List.find (\<lambda>x. blog_id x = blog_id b \<and> state x = Published) db = Some b"
    by (simp add: findOnePublished_def)
  then have "List.find (\<lambda>x. blog_id x = blog_id b \<and> state x = Published) (blog_replace s db)
              = Some s"
    using st sv by (intro find_published_replace [where b = b]) simp_all
  then have "findOnePublished cast (blog_replace s db) ident = Inr (Some s)"
    using c by (simp add: findOnePublished_def)
  with assms(1,2) Inr p sv d show ?thesis by (simp add: getBlogById_def)
qed

lemma getBlogById_valid_ok:
  assumes "findOnePublished cast db ident = Inr (Some b)" and "validate_blog b = []"
  shows "status (snd (getBlogById cast now db ident)) = 200"
proof -
  have "validate_blog (b\<lparr>read_count := js_increment (read_count b)\<rparr>) = []"
    using assms(2) by (simp add: validate_blog_def)
  then show ?thesis
    using assms(1) by (simp add: getBlogById_def incrementReadCount_def blog_save_same_title)
qed

lemma fetch_times_count:
  "findOnePublished cast db ident = Inr (Some b) \<Longrightarrow>
   fetch_times cast ts db ident = (db', rs) \<Longrightarrow> \<forall>r\<in>set rs. status r = 200 \<Longrightarrow>
   - (2 ^ 53) \<le> read_count b \<Longrightarrow> read_count b + int (length ts) \<le> 2 ^ 53 \<Longrightarrow>
   \<exists>b'. findOnePublished cast db' ident = Inr (Some b')
        \<and> read_count b' = read_count b + int (length ts)"
proof (induction ts arbitrary: db b db' rs)
  case Nil
  then show ?case by simp
next
  case (Cons t ts)
  obtain db1 r where g: "getBlogById cast t db ident = (db1, r)"
    by (cases "getBlogById cast t db ident")
  obtain db2 rs2 where f: "fetch_times cast ts db1 ident = (db2, rs2)"
    by (cases "fetch_times cast ts db1 ident")
  from Cons.prems(2) g f have eq: "db' = db2" "rs = r # rs2" by simp_all
  with Cons.prems(3) have r: "status r = 200" and rs2: "\<forall>r\<in>set rs2. status r = 200"
    by simp_all
  from Cons.prems(5) have lt: "read_count b < 2 ^ 53" by simp
  have inc: "js_increment (read_count b) = read_count b + 1"
    using Cons.prems(4) lt by (rule js_increment_exact)
  let ?b1 = "b\<lparr>read_count := js_increment (read_count b), updatedAt := t\<rparr>"
  have fp: "findOnePublished cast db1 ident = Inr (Some ?b1)"
    by (rule getBlogById_found [OF Cons.prems(1) g r, THEN conjunct2, THEN conjunct2])
  have lo: "- (2 ^ 53) \<le> read_count ?b1" using Cons.prems(4) inc by simp
  have hi: "read_count ?b1 + int (length ts) \<le> 2 ^ 53" using Cons.prems(5) inc by simp
  from Cons.IH [OF fp f rs2 lo hi] obtain b' where
    "findOnePublished cast db2 ident = Inr (Some b')"
    "read_count b' = read_count ?b1 + int (length ts)" by blast
  with eq inc show ?case by simp
qed

lemma demo_casts:
  "castObjectId id_a1 = Some 0xa1 \<and> castObjectId id_a2 = Some 0xa2
   \<and> castObjectId id_a3 = Some 0xa3 \<and> castObjectId (js ''abc'') = None"
  by (simp add: castObjectId_def id_a1_def id_a2_def id_a3_def js_def hex_digit_def)

text \<open>
  The counter is a Number: a fetch of a blog whose stored \<open>read_count\<close> is \<open>2^53\<close>
  succeeds and leaves the count as it was.
\<close>

lemma getBlogById_count_stops:
  "getBlogById castObjectId 5 [demo_blog\<lparr>read_count := 2 ^ 53\<rparr>] id_a1
     = ([demo_blog\<lparr>read_count := 2 ^ 53, updatedAt := 5\<rparr>],
        \<lparr>status = 200, success = True, message = None,
         data = BlogData (demo_blog\<lparr>read_count := 2 ^ 53, updatedAt := 5\<rparr>)\<rparr>)"
proof -
  have c: "castObjectId id_a1 = Some 0xa1" using demo_casts by simp
  have j: "js_increment 9007199254740992 = 9007199254740992"
    using js_increment_stops by simp
  show ?thesis
    using c j
    by (simp add: getBlogById_def findOnePublished_def incrementReadCount_def blog_save_def
        validate_blog_def demo_blog_def js_def Let_def)
qed

text \<open>
  Claim C4, as the code has it. For every identifier that the cast accepts: when no
  published blog has it, the fetch answers 404 \<open>Blog not found\<close> and leaves the
  collection alone, so a draft's identifier and an unused identifier get the same
  response; a fetch that succeeds returns and stores the blog with \<open>read_count\<close> one
  higher when the stored count is an integer from \<open>-2^53\<close> to below \<open>2^53\<close>, and
  unchanged when it is \<open>2^53\<close>, where adding one to a Number yields the same Number;
  and after \<open>N\<close> successful fetches in a row the stored
  \<open>read_count\<close> is its first value plus \<open>N\<close>, when the first value is at least
  \<open>-2^53\<close> and that sum at most \<open>2^53\<close>. A fetch of a valid published blog does
  succeed. An identifier that the cast rejects is answered 400 \<open>Invalid ID format\<close>, the
  collection left alone.
\<close>

theorem getBlogById_published_only:
  assumes "cast ident = Some oid"
  shows "(\<not> (\<exists>b\<in>set db. blog_id b = oid \<and> state b = Published) \<longrightarrow>
            getBlogById cast now db ident = (db, fail 404 ''Blog not found''))
     \<and> (\<forall>ident2 oid2. cast ident2 = Some oid2
            \<and> \<not> (\<exists>b\<in>set db. blog_id b = oid \<and> state b = Published)
            \<and> (\<exists>b\<in>set db. blog_id b = oid \<and> state b = Draft)
            \<and> oid2 \<notin> blog_id ` set db \<longrightarrow>
            snd (getBlogById cast now db ident) = snd (getBlogById cast now db ident2))
     \<and> (\<forall>b db' r. findOnePublished cast db ident = Inr (Some b)
            \<and> getBlogById cast now db ident = (db', r) \<and> status r = 200 \<longrightarrow>
            (\<exists>b'. data r = BlogData b' \<and> findOnePublished cast db' ident = Inr (Some b')
                 \<and> (- (2 ^ 53) \<le> read_count b \<and> read_count b < 2 ^ 53 \<longrightarrow>
                      read_count b' = read_count b + 1)
                 \<and> (read_count b = 2 ^ 53 \<longrightarrow> read_count b' = 2 ^ 53)))
     \<and> (\<forall>b ts db' rs. findOnePublished cast db ident = Inr (Some b)
            \<and> fetch_times cast ts db ident = (db', rs) \<and> (\<forall>r\<in>set rs. status r = 200)
            \<and> - (2 ^ 53) \<le> read_count b \<and> read_count b + int (length ts) \<le> 2 ^ 53 \<longrightarrow>
            (\<exists>b'. findOnePublished cast db' ident = Inr (Some b')
                 \<and> read_count b' = read_count b + int (length ts)))
     \<and> (\<forall>b. findOnePublished cast db ident = Inr (Some b) \<and> validate_blog b = [] \<longrightarrow>
            status (snd (getBlogById cast now db ident)) = 200)
     \<and> (\<forall>ident3. cast ident3 = None \<longrightarrow>
            getBlogById cast now db ident3 = (db, fail 400 ''Invalid ID format''))"
proof -
  have a: "\<not> (\<exists>b\<in>set db. blog_id b = oid \<and> state b = Published) \<longrightarrow>
            getBlogById cast now db ident = (db, fail 404 ''Blog not found'')"
  proof
    assume "\<not> (\<exists>b\<in>set db. blog_id b = oid \<and> state b = Published)"
    then have "findOnePublished cast db ident = Inr None"
      using assms by (simp add: findOnePublished_None)
    then show "getBlogById cast now db ident = (db, fail 404 ''Blog not found'')"
      by (simp add: getBlogById_def)
  qed
  have b: "\<forall>ident2 oid2. cast ident2 = Some oid2
            \<and> \<not> (\<exists>b\<in>set db. blog_id b = oid \<and> state b = Published)
            \<and> (\<exists>b\<in>set db. blog_id b = oid \<and> state b = Draft)
            \<and> oid2 \<notin> blog_id ` set db \<longrightarrow>
            snd (getBlogById cast now db ident) = snd (getBlogById cast now db ident2)"
  proof (intro allI impI)
    fix ident2 oid2
    assume h: "cast ident2 = Some oid2
            \<and> \<not> (\<exists>b\<in>set db. blog_id b = oid \<and> state b = Published)
            \<and> (\<exists>b\<in>set db. blog_id b = oid \<and> state b = Draft)
            \<and> oid2 \<notin> blog_id ` set db"
    then have "findOnePublished cast db ident = Inr None"
      using assms by (simp add: findOnePublished_None)
    moreover from h have "findOnePublished cast db ident2 = Inr None"
      by (subst findOnePublished_None [where oid = oid2]) auto
    ultimately show "snd (getBlogById cast now db ident) = snd (getBlogById cast now db ident2)"
      by (simp add: getBlogById_def)
  qed
  have c: "\<forall>b db' r. findOnePublished cast db ident = Inr (Some b)
            \<and> getBlogById cast now db ident = (db', r) \<and> status r = 200 \<longrightarrow>
            (\<exists>b'. data r = BlogData b' \<and> findOnePublished cast db' ident = Inr (Some b')
                 \<and> (- (2 ^ 53) \<le> read_count b \<and> read_count b < 2 ^ 53 \<longrightarrow>
                      read_count b' = read_count b + 1)
                 \<and> (read_count b = 2 ^ 53 \<longrightarrow> read_count b' = 2 ^ 53))"
  proof (intro allI impI)
    fix b db' r
    assume "findOnePublished cast db ident = Inr (Some b)
            \<and> getBlogById cast now db ident = (db', r) \<and> status r = 200"
    then have "r = \<lparr>status = 200, success = True, message = None,
                 data = BlogData (b\<lparr>read_count := js_increment (read_count b),
                                    updatedAt := now\<rparr>)\<rparr>
         \<and> findOnePublished cast db' ident
             = Inr (Some (b\<lparr>read_count := js_increment (read_count b), updatedAt := now\<rparr>))"
      using getBlogById_found [of cast db ident b now db' r] by blast
    then show "\<exists>b'. data r = BlogData b' \<and> findOnePublished cast db' ident = Inr (Some b')
                 \<and> (- (2 ^ 53) \<le> read_count b \<and> read_count b < 2 ^ 53 \<longrightarrow>
                      read_count b' = read_count b + 1)
                 \<and> (read_count b = 2 ^ 53 \<longrightarrow> read_count b' = 2 ^ 53)"
      using js_increment_exact [of "read_count b"] js_increment_stops by auto
  qed
  have d: "\<forall>b ts db' rs. findOnePublished cast db ident = Inr (Some b)
            \<and> fetch_times cast ts db ident = (db', rs) \<and> (\<forall>r\<in>set rs. status r = 200)
            \<and> - (2 ^ 53) \<le> read_count b \<and> read_count b + int (length ts) \<le> 2 ^ 53 \<longrightarrow>
            (\<exists>b'. findOnePublished cast db' ident = Inr (Some b')
                 \<and> read_count b' = read_count b + int (length ts))"
  proof (intro allI impI)
    fix b ts db' rs
    assume "findOnePublished cast db ident = Inr (Some b)
            \<and> fetch_times cast ts db ident = (db', rs) \<and> (\<forall>r\<in>set rs. status r = 200)
            \<and> - (2 ^ 53) \<le> read_count b \<and> read_count b + int (length ts) \<le> 2 ^ 53"
    then show "\<exists>b'. findOnePublished cast db' ident = Inr (Some b')
                 \<and> read_count b' = read_count b + int (length ts)"
      using fetch_times_count [of cast db ident b ts db' rs] by blast
  qed
  have e: "\<forall>b. findOnePublished cast db ident = Inr (Some b) \<and> validate_blog b = [] \<longrightarrow>
            status (snd (getBlogById cast now db ident)) = 200"
  proof (intro allI impI)
    fix b
    assume "findOnePublished cast db ident = Inr (Some b) \<and> validate_blog b = []"
    then show "status (snd (getBlogById cast now db ident)) = 200"
      using getBlogById_valid_ok [of cast db ident b now] by blast
  qed
  have f: "\<forall>ident3. cast ident3 = None \<longrightarrow>
            getBlogById cast now db ident3 = (db, fail 400 ''Invalid ID format'')"
    by (simp add: getBlogById_def findOnePublished_def errorHandler_castError)
  show ?thesis by (intro conjI a b c d e f)
qed

theorem getBlogById_published_only_witness:
  "castObjectId id_a2 = Some 0xa2
   \<and> getBlogById castObjectId 5 demo_db id_a2 = (demo_db, fail 404 ''Blog not found'')
   \<and> findOnePublished castObjectId demo_db id_a1 = Inr (Some demo_blog)
   \<and> - (2 ^ 53) \<le> read_count demo_blog \<and> read_count demo_blog + 3 \<le> 2 ^ 53
   \<and> (\<exists>b'. findOnePublished castObjectId (fst (fetch_times castObjectId [5, 6, 7] demo_db id_a1)) id_a1
              = Inr (Some b')
            \<and> read_count b' = read_count demo_blog + 3)
   \<and> map status (snd (fetch_times castObjectId [5, 6, 7] demo_db id_a1)) = [200, 200, 200]
   \<and> castObjectId (js ''abc'') = None
   \<and> getBlogById castObjectId 5 demo_db (js ''abc'') = (demo_db, fail 400 ''Invalid ID format'')
   \<and> (\<exists>b'. data (snd (getBlogById castObjectId 5 [demo_blog\<lparr>read_count := 2 ^ 53\<rparr>] id_a1))
              = BlogData b'
            \<and> read_count b' = 2 ^ 53)"
proof -
  have c2: "castObjectId id_a2 = Some 0xa2" and c1: "castObjectId id_a1 = Some 0xa1"
    and c0: "castObjectId (js ''abc'') = None"
    using demo_casts by simp_all
  have nopub: "\<not> (\<exists>b\<in>set demo_db. blog_id b = 0xa2 \<and> state b = Published)"
    by (simp add: demo_db_def demo_blog_def demo_draft_def)
  note at_a2 = getBlogById_published_only [where cast = castObjectId and ident = id_a2
      and oid = "0xa2" and db = demo_db and now = 5, OF c2]
  have a: "getBlogById castObjectId 5 demo_db id_a2 = (demo_db, fail 404 ''Blog not found'')"
    using at_a2 nopub by blast
  have m: "getBlogById castObjectId 5 demo_db (js ''abc'')
             = (demo_db, fail 400 ''Invalid ID format'')"
    using at_a2 c0 by blast
  have f: "findOnePublished castObjectId demo_db id_a1 = Inr (Some demo_blog)"
    using c1 by (simp add: findOnePublished_def demo_db_def demo_blog_def)
  have rc: "read_count demo_blog = 0" by (simp add: demo_blog_def)
  have bd: "- (2 ^ 53) \<le> read_count demo_blog"
    "read_count demo_blog + int (length [5, 6, 7 :: int]) \<le> 2 ^ 53"
    by (simp_all add: rc)
  have st: "map status (snd (fetch_times castObjectId [5, 6, 7] demo_db id_a1)) = [200, 200, 200]"
    using c1
    by (simp add: getBlogById_def findOnePublished_def incrementReadCount_def blog_save_def
        validate_blog_def demo_db_def demo_blog_def demo_draft_def js_def Let_def)
  define rs where "rs = snd (fetch_times castObjectId [5, 6, 7] demo_db id_a1)"
  have "map status rs = [200, 200, 200]" unfolding rs_def by (rule st)
  then have "set (map status rs) = {200}" by simp
  then have "\<forall>r\<in>set rs. status r = 200" by auto
  then have ok: "\<forall>r\<in>set (snd (fetch_times castObjectId [5, 6, 7] demo_db id_a1)). status r = 200"
    unfolding rs_def .
  have pr: "fetch_times castObjectId [5, 6, 7] demo_db id_a1
              = (fst (fetch_times castObjectId [5, 6, 7] demo_db id_a1),
                 snd (fetch_times castObjectId [5, 6, 7] demo_db id_a1))"
    by simp
  from getBlogById_published_only [where cast = castObjectId and ident = id_a1 and oid = "0xa1" and db = demo_db and now = 5, OF c1] f pr ok bd
  have "\<exists>b'. findOnePublished castObjectId (fst (fetch_times castObjectId [5, 6, 7] demo_db id_a1)) id_a1
              = Inr (Some b')
            \<and> read_count b' = read_count demo_blog + int (length [5, 6, 7 :: int])"
    by blast
  note fetched = this
  let ?big = "demo_blog\<lparr>read_count := 2 ^ 53\<rparr>"
  have fb: "findOnePublished castObjectId [?big] id_a1 = Inr (Some ?big)"
    using c1 by (simp add: findOnePublished_def demo_blog_def)
  have rb: "read_count ?big = 2 ^ 53" by simp
  have sb: "status (snd (getBlogById castObjectId 5 [?big] id_a1)) = 200"
    using getBlogById_count_stops by simp
  have pb: "getBlogById castObjectId 5 [?big] id_a1
              = (fst (getBlogById castObjectId 5 [?big] id_a1),
                 snd (getBlogById castObjectId 5 [?big] id_a1))"
    by simp
  from getBlogById_published_only [where cast = castObjectId and ident = id_a1 and oid = "0xa1"
      and db = "[?big]" and now = 5, OF c1] fb pb sb rb
  have big: "\<exists>b'. data (snd (getBlogById castObjectId 5 [?big] id_a1)) = BlogData b'
            \<and> read_count b' = 2 ^ 53"
    by blast
  from c2 a f st c0 m bd fetched big show ?thesis by simp
qed

text \<open>
  The claim as stated fails on an identifier that the cast rejects: no published blog
  has the identifier \<^verbatim>\<open>abc\<close>, yet the answer is 400, while the unused identifier
  \<open>id_a3\<close> gets 404.
\<close>

theorem getBlogById_malformed_counterexample:
  "status (snd (getBlogById castObjectId 5 demo_db (js ''abc''))) = 400
   \<and> status (snd (getBlogById castObjectId 5 demo_db id_a3)) = 404"
  using demo_casts
  by (simp add: getBlogById_def findOnePublished_def errorHandler_castError fail_status
      demo_db_def demo_blog_def demo_draft_def)

section \<open>Identifiers that are not object identifiers\<close>

text \<open>
  Claim C10. When the cast of the identifier fails, fetching, updating and deleting all
  answer 400 with the message \<open>Invalid ID format\<close> and leave the collection as it
  was; this is not the 404 \<open>Blog not found\<close> that an unused identifier gets.
\<close>

theorem malformed_id_invalid_format:
  "cast ident = None \<Longrightarrow>
     getBlogById cast now db ident = (db, fail 400 ''Invalid ID format'')
     \<and> updateBlog cast now caller db ident req = (db, fail 400 ''Invalid ID format'')
     \<and> deleteBlog cast caller db ident = (db, fail 400 ''Invalid ID format'')
     \<and> status (fail 400 ''Invalid ID format'') \<noteq> 404
     \<and> fail 400 ''Invalid ID format'' \<noteq> fail 404 ''Blog not found''"
  by (simp add: getBlogById_def updateBlog_def deleteBlog_def findById_def
      findOnePublished_def errorHandler_castError fail_def)

theorem malformed_id_invalid_format_witness:
  "castObjectId (js ''abc'') = None
   \<and> getBlogById castObjectId 5 demo_db (js ''abc'') = (demo_db, fail 400 ''Invalid ID format'')
   \<and> updateBlog castObjectId 5 alice demo_db (js ''abc'') no_fields
       = (demo_db, fail 400 ''Invalid ID format'')
   \<and> deleteBlog castObjectId alice demo_db (js ''abc'') = (demo_db, fail 400 ''Invalid ID format'')"
proof -
  have c: "castObjectId (js ''abc'') = None" using demo_casts by simp
  from malformed_id_invalid_format [where cast = castObjectId and ident = "js ''abc''" and now = 5 and db = demo_db and caller = alice and req = no_fields, OF c] c
  show ?thesis by simp
qed

section \<open>Ownership on update and delete\<close>

text \<open>
  Claim C5, as the code has it. For update and for delete: when the lookup of the
  identifier finds no blog, as it does for every identifier that the cast accepts and
  no stored blog has, every caller, owner or not, gets 404 \<open>Blog not found\<close>; when it
  finds a blog whose author is not the caller, the caller gets 403. The lookup comes
  first, so an unused identifier is never answered with 403. An identifier that the
  cast rejects is answered 400 \<open>Invalid ID format\<close>, whoever the caller is.
\<close>

theorem not_found_before_forbidden:
  "(findById cast db ident = Inr None \<longrightarrow>
      (\<forall>caller. updateBlog cast now caller db ident req = (db, fail 404 ''Blog not found'')
         \<and> deleteBlog cast caller db ident = (db, fail 404 ''Blog not found'')))
   \<and> (\<forall>oid. cast ident = Some oid \<and> oid \<notin> blog_id ` set db \<longrightarrow>
        findById cast db ident = Inr None)
   \<and> (\<forall>blog caller. findById cast db ident = Inr (Some blog) \<and> author blog \<noteq> caller \<longrightarrow>
        updateBlog cast now caller db ident req
          = (db, fail 403 ''You are not authorized to update this blog'')
        \<and> deleteBlog cast caller db ident
          = (db, fail 403 ''You are not authorized to delete this blog''))
   \<and> (cast ident = None \<longrightarrow>
        (\<forall>caller. updateBlog cast now caller db ident req
                    = (db, fail 400 ''Invalid ID format'')
           \<and> deleteBlog cast caller db ident = (db, fail 400 ''Invalid ID format'')))"
proof -
  have a: "(findById cast db ident = Inr None \<longrightarrow>
      (\<forall>caller. updateBlog cast now caller db ident req = (db, fail 404 ''Blog not found'')
         \<and> deleteBlog cast caller db ident = (db, fail 404 ''Blog not found'')))
   \<and> (\<forall>oid. cast ident = Some oid \<and> oid \<notin> blog_id ` set db \<longrightarrow>
        findById cast db ident = Inr None)
   \<and> (\<forall>blog caller. findById cast db ident = Inr (Some blog) \<and> author blog \<noteq> caller \<longrightarrow>
        updateBlog cast now caller db ident req
          = (db, fail 403 ''You are not authorized to update this blog'')
        \<and> deleteBlog cast caller db ident
          = (db, fail 403 ''You are not authorized to delete this blog''))"
    by (auto simp: updateBlog_def deleteBlog_def findById_None)
  have b: "cast ident = None \<longrightarrow>
        (\<forall>caller. updateBlog cast now caller db ident req
                    = (db, fail 400 ''Invalid ID format'')
           \<and> deleteBlog cast caller db ident = (db, fail 400 ''Invalid ID format''))"
    by (simp add: updateBlog_def deleteBlog_def findById_def errorHandler_castError)
  from a b show ?thesis by blast
qed

theorem not_found_before_forbidden_witness:
  "findById castObjectId demo_db id_a3 = Inr None
   \<and> updateBlog castObjectId 5 bob demo_db id_a3 no_fields = (demo_db, fail 404 ''Blog not found'')
   \<and> deleteBlog castObjectId bob demo_db id_a3 = (demo_db, fail 404 ''Blog not found'')
   \<and> findById castObjectId demo_db id_a1 = Inr (Some demo_blog) \<and> author demo_blog \<noteq> bob
   \<and> updateBlog castObjectId 5 bob demo_db id_a1 no_fields
       = (demo_db, fail 403 ''You are not authorized to update this blog'')
   \<and> deleteBlog castObjectId bob demo_db id_a1
       = (demo_db, fail 403 ''You are not authorized to delete this blog'')
   \<and> castObjectId (js ''abc'') = None
   \<and> updateBlog castObjectId 5 bob demo_db (js ''abc'') no_fields
       = (demo_db, fail 400 ''Invalid ID format'')
   \<and> deleteBlog castObjectId bob demo_db (js ''abc'') = (demo_db, fail 400 ''Invalid ID format'')"
proof -
  have c0: "castObjectId (js ''abc'') = None" using demo_casts by simp
  have n: "findById castObjectId demo_db id_a3 = Inr None"
    using demo_casts by (simp add: findById_def demo_db_def demo_blog_def demo_draft_def)
  have s: "findById castObjectId demo_db id_a1 = Inr (Some demo_blog)"
    using demo_casts by (simp add: findById_def demo_db_def demo_blog_def)
  have a: "author demo_blog \<noteq> bob" by (simp add: demo_blog_def alice_def bob_def)
  from not_found_before_forbidden [of castObjectId demo_db id_a3 5 no_fields] n
  have "updateBlog castObjectId 5 bob demo_db id_a3 no_fields = (demo_db, fail 404 ''Blog not found'')
        \<and> deleteBlog castObjectId bob demo_db id_a3 = (demo_db, fail 404 ''Blog not found'')"
    by blast
  moreover from not_found_before_forbidden [of castObjectId demo_db id_a1 5 no_fields] s a
  have "updateBlog castObjectId 5 bob demo_db id_a1 no_fields
          = (demo_db, fail 403 ''You are not authorized to update this blog'')
        \<and> deleteBlog castObjectId bob demo_db id_a1
          = (demo_db, fail 403 ''You are not authorized to delete this blog'')"
    by blast
  moreover from not_found_before_forbidden [of castObjectId demo_db "js ''abc''" 5 no_fields] c0
  have "updateBlog castObjectId 5 bob demo_db (js ''abc'') no_fields
          = (demo_db, fail 400 ''Invalid ID format'')
        \<and> deleteBlog castObjectId bob demo_db (js ''abc'') = (demo_db, fail 400 ''Invalid ID format'')"
    by blast
  ultimately show ?thesis using n s a c0 by simp
qed

text \<open>
  The claim as stated fails on an identifier that the cast rejects: no blog has the
  identifier \<^verbatim>\<open>abc\<close>, yet update and delete answer 400 and not 404.
\<close>

theorem update_delete_malformed_counterexample:
  "status (snd (updateBlog castObjectId 5 bob demo_db (js ''abc'') no_fields)) = 400
   \<and> status (snd (deleteBlog castObjectId bob demo_db (js ''abc''))) = 400
   \<and> status (snd (updateBlog castObjectId 5 bob demo_db id_a3 no_fields)) = 404
   \<and> status (snd (deleteBlog castObjectId bob demo_db id_a3)) = 404"
  using demo_casts
  by (simp add: updateBlog_def deleteBlog_def findById_def errorHandler_castError fail_status
      demo_db_def demo_blog_def demo_draft_def)

section \<open>Creating a blog\<close>





section \<open>Updating a blog\<close>





section \<open>The public listing\<close>
































section \<open>Login and tokens\<close>

lemma errorHandler_illegalArguments:
  "errorHandler illegalArguments
     = \<lparr>status = 500, success = False, message = Some DriverMsg, data = NoData\<rparr>"
  by (simp add: errorHandler_def illegalArguments_def)

lemma login_unknown_email:
  "e \<noteq> [] \<Longrightarrow> js_truthy pw \<Longrightarrow> findUserByEmail lower users (lower e) = None \<Longrightarrow>
   login lower bcrypt_compare secret now users \<lparr>cred_email = JStr e, cred_password = pw\<rparr>
     = fail 401 ''Invalid email or password''"
  by (simp add: login_def)

lemma login_wrong_password:
  "e \<noteq> [] \<Longrightarrow> p \<noteq> [] \<Longrightarrow> findUserByEmail lower users (lower e) = Some usr \<Longrightarrow>
   \<not> bcrypt_compare p (password usr) \<Longrightarrow>
   login lower bcrypt_compare secret now users \<lparr>cred_email = JStr e, cred_password = JStr p\<rparr>
     = fail 401 ''Invalid email or password''"
  by (simp add: login_def comparePassword_def)

lemma login_not_a_string:
  "e \<noteq> [] \<Longrightarrow> js_truthy pw \<Longrightarrow> js_typeof pw \<noteq> ''string'' \<Longrightarrow>
   findUserByEmail lower users (lower e) = Some usr \<Longrightarrow>
   login lower bcrypt_compare secret now users \<lparr>cred_email = JStr e, cred_password = pw\<rparr>
     = \<lparr>status = 500, success = False, message = Some DriverMsg, data = NoData\<rparr>"
  by (cases pw) (simp_all add: login_def comparePassword_def errorHandler_illegalArguments)

text \<open>
  Passwords that are strings: an email that no user has and a user's email with a
  wrong password get the same response, whatever the two passwords are.
\<close>

lemma login_string_passwords:
  assumes "e1 \<noteq> []" and "e2 \<noteq> []" and "p1 \<noteq> []" and "p2 \<noteq> []"
      and "findUserByEmail lower users (lower e1) = None"
      and "findUserByEmail lower users (lower e2) = Some usr"
      and "\<not> bcrypt_compare p2 (password usr)"
  shows "login lower bcrypt_compare secret now users
           \<lparr>cred_email = JStr e1, cred_password = JStr p1\<rparr>
         = login lower bcrypt_compare secret now users
             \<lparr>cred_email = JStr e2, cred_password = JStr p2\<rparr>"
  using assms by (simp add: login_unknown_email login_wrong_password)

lemma demo_lookup:
  "findUserByEmail demo_lower [john] (demo_lower (js ''nobody@test.com'')) = None"
  "findUserByEmail demo_lower [john] (demo_lower (js ''john@test.com'')) = Some john"
  "findUserByEmail demo_lower [john] (demo_lower (js '' John@Test.com '')) = Some john"
  by (simp_all add: findUserByEmail_def demo_lower_def john_def js_def ascii_fold_def
      js_trim_def is_ws_def)

text \<open>The filter is trimmed and lower-cased: these credentials log John in.\<close>

lemma login_trims_email:
  "status (login demo_lower demo_compare demo_secret 100 [john]
     \<lparr>cred_email = JStr (js '' John@Test.com ''), cred_password = JStr (js ''password123'')\<rparr>)
   = 200"
proof -
  have "js '' John@Test.com '' \<noteq> []" "js ''password123'' \<noteq> []"
    "demo_compare (js ''password123'') (password john)"
    by (simp_all add: js_def demo_compare_def john_def)
  then show ?thesis
    using demo_lookup(3) by (simp add: login_def comparePassword_def)
qed

text \<open>
  Claim C8 does not hold of the code. The handler takes every truthy value of the
  request body as the password, and the comparison with the stored hash, which is made
  only once a user with the email has been found, raises on a value that is not a
  string. So for a truthy password that is not a string, such as the number
  \<^verbatim>\<open>12345\<close>, an email that no user has is answered 401
  \<open>Invalid email or password\<close> and a user's email is answered 500 with the library's
  message: the two responses differ in kind and message, and tell whether the email
  exists.
\<close>

theorem login_nonstring_password_leak:
  assumes "js_truthy pw" and "js_typeof pw \<noteq> ''string''"
      and "e1 \<noteq> []" and "e2 \<noteq> []"
      and "findUserByEmail lower users (lower e1) = None"
      and "findUserByEmail lower users (lower e2) = Some usr"
  shows "login lower bcrypt_compare secret now users
           \<lparr>cred_email = JStr e1, cred_password = pw\<rparr>
         = fail 401 ''Invalid email or password''
     \<and> login lower bcrypt_compare secret now users
           \<lparr>cred_email = JStr e2, cred_password = pw\<rparr>
         = \<lparr>status = 500, success = False, message = Some DriverMsg, data = NoData\<rparr>
     \<and> login lower bcrypt_compare secret now users
           \<lparr>cred_email = JStr e1, cred_password = pw\<rparr>
         \<noteq> login lower bcrypt_compare secret now users
             \<lparr>cred_email = JStr e2, cred_password = pw\<rparr>"
proof -
  have a: "login lower bcrypt_compare secret now users
           \<lparr>cred_email = JStr e1, cred_password = pw\<rparr>
         = fail 401 ''Invalid email or password''"
    using assms(3,1,5) by (rule login_unknown_email)
  have b: "login lower bcrypt_compare secret now users
           \<lparr>cred_email = JStr e2, cred_password = pw\<rparr>
         = \<lparr>status = 500, success = False, message = Some DriverMsg, data = NoData\<rparr>"
    using assms(4,1,2,6) by (rule login_not_a_string)
  have "fail 401 ''Invalid email or password''
          \<noteq> \<lparr>status = 500, success = False, message = Some DriverMsg, data = NoData\<rparr>"
    by (simp add: fail_def)
  with a b show ?thesis by simp
qed

theorem login_nonstring_password_leak_witness:
  "js_truthy (JNum (Finite 12345)) \<and> js_typeof (JNum (Finite 12345)) \<noteq> ''string''
   \<and> js ''nobody@test.com'' \<noteq> [] \<and> js ''john@test.com'' \<noteq> []
   \<and> findUserByEmail demo_lower [john] (demo_lower (js ''nobody@test.com'')) = None
   \<and> findUserByEmail demo_lower [john] (demo_lower (js ''john@test.com'')) = Some john
   \<and> login demo_lower demo_compare demo_secret 100 [john]
        \<lparr>cred_email = JStr (js ''nobody@test.com''), cred_password = JNum (Finite 12345)\<rparr>
      = fail 401 ''Invalid email or password''
   \<and> login demo_lower demo_compare demo_secret 100 [john]
        \<lparr>cred_email = JStr (js ''john@test.com''), cred_password = JNum (Finite 12345)\<rparr>
      = \<lparr>status = 500, success = False, message = Some DriverMsg, data = NoData\<rparr>"
proof -
  have t: "js_truthy (JNum (Finite 12345))" "js_typeof (JNum (Finite 12345)) \<noteq> ''string''"
    by simp_all
  have ne: "js ''nobody@test.com'' \<noteq> []" "js ''john@test.com'' \<noteq> []"
    by (simp_all add: js_def)
  from login_nonstring_password_leak [where lower = demo_lower and bcrypt_compare = demo_compare
      and secret = demo_secret and now = 100, OF t ne demo_lookup(1,2)]
  have "login demo_lower demo_compare demo_secret 100 [john]
        \<lparr>cred_email = JStr (js ''nobody@test.com''), cred_password = JNum (Finite 12345)\<rparr>
      = fail 401 ''Invalid email or password''
   \<and> login demo_lower demo_compare demo_secret 100 [john]
        \<lparr>cred_email = JStr (js ''john@test.com''), cred_password = JNum (Finite 12345)\<rparr>
      = \<lparr>status = 500, success = False, message = Some DriverMsg, data = NoData\<rparr>"
    by blast
  with t ne demo_lookup(1,2) show ?thesis by simp
qed

lemma fail_messages_differ:
  "fail 401 ''Token expired. Please login again.'' \<noteq> fail 401 ''Invalid token.''"
  by (simp add: fail_def)

text \<open>
  Claim C9, on the token collaborator as the specification describes it. A token issued
  at time \<open>T\<close> (seconds) for an existing user carries the expiry \<open>T + 3600\<close>, and
  \<open>authenticate\<close> accepts it exactly at the times before \<open>T + 3600\<close>: it is accepted 59
  minutes after issue and rejected 61 minutes after issue, with 401 and the message for
  an expired token. A string that is no token, and a token signed with another secret,
  are rejected with 401 and a different message.
\<close>

theorem token_expires_after_one_hour:
  assumes "List.find (\<lambda>u. user_id u = uid) users = Some usr"
  shows "generateToken secret T uid
           = Signed \<lparr>jwt_userId = uid, jwt_iat = T, jwt_exp = T + 3600\<rparr> secret
     \<and> (\<forall>now. now < T + 3600 \<longrightarrow>
          authenticate secret now users (Some (Some (generateToken secret T uid)))
            = Inr (toJSON usr))
     \<and> (\<forall>now. T + 3600 \<le> now \<longrightarrow>
          authenticate secret now users (Some (Some (generateToken secret T uid)))
            = Inl (fail 401 ''Token expired. Please login again.''))
     \<and> authenticate secret (T + 59 * 60) users (Some (Some (generateToken secret T uid)))
         = Inr (toJSON usr)
     \<and> authenticate secret (T + 61 * 60) users (Some (Some (generateToken secret T uid)))
         = Inl (fail 401 ''Token expired. Please login again.'')
     \<and> (\<forall>now. authenticate secret now users (Some (Some Junk)) = Inl (fail 401 ''Invalid token.''))
     \<and> (\<forall>now p key. key \<noteq> secret \<longrightarrow>
          authenticate secret now users (Some (Some (Signed p key)))
            = Inl (fail 401 ''Invalid token.''))
     \<and> fail 401 ''Token expired. Please login again.'' \<noteq> fail 401 ''Invalid token.''"
  using assms fail_messages_differ
  by (simp add: generateToken_def jwt_sign_def authenticate_def jwt_verify_def)

theorem token_expires_after_one_hour_witness:
  "List.find (\<lambda>u. user_id u = alice) [john] = Some john
   \<and> authenticate demo_secret (1000 + 59 * 60) [john]
        (Some (Some (generateToken demo_secret 1000 alice))) = Inr (toJSON john)
   \<and> authenticate demo_secret (1000 + 61 * 60) [john]
        (Some (Some (generateToken demo_secret 1000 alice)))
      = Inl (fail 401 ''Token expired. Please login again.'')
   \<and> js ''other'' \<noteq> demo_secret
   \<and> authenticate demo_secret 1000 [john]
        (Some (Some (generateToken (js ''other'') 1000 alice)))
      = Inl (fail 401 ''Invalid token.'')"
proof -
  have f: "List.find (\<lambda>u. user_id u = alice) [john] = Some john"
    by (simp add: john_def)
  have o: "js ''other'' \<noteq> demo_secret" by (simp add: demo_secret_def js_def)
  have g: "generateToken (js ''other'') 1000 alice
             = Signed \<lparr>jwt_userId = alice, jwt_iat = 1000, jwt_exp = 1000 + 3600\<rparr> (js ''other'')"
    by (simp add: generateToken_def jwt_sign_def)
  from token_expires_after_one_hour [where users = "[john]" and uid = alice and usr = john
      and secret = demo_secret and T = 1000, OF f] o
  have "authenticate demo_secret (1000 + 59 * 60) [john]
        (Some (Some (generateToken demo_secret 1000 alice))) = Inr (toJSON john)
   \<and> authenticate demo_secret (1000 + 61 * 60) [john]
        (Some (Some (generateToken demo_secret 1000 alice)))
      = Inl (fail 401 ''Token expired. Please login again.'')
   \<and> authenticate demo_secret 1000 [john]
        (Some (Some (Signed \<lparr>jwt_userId = alice, jwt_iat = 1000, jwt_exp = 1000 + 3600\<rparr> (js ''other''))))
      = Inl (fail 401 ''Invalid token.'')"
    by blast
  with f o g show ?thesis by simp
qed

end
